theory Spec2Isabelle
  imports
    Complex_Main
    "HOL-Library.Multiset"
    "HOL-Library.Char_ord"
    "HOL-Library.List_Lexorder"
    "HOL-Library.Product_Lexorder"
begin

section \<open>The survey pipeline of WGK.py\<close>

text \<open>
  \<^verbatim>\<open>WGK.py\<close> is one function, \<^verbatim>\<open>main\<close>, written as numbered pandas steps. Each step is
  a definition below, named after what the step's comment says; \<open>main\<close> composes them.
  A DataFrame is a list of rows in index order. A missing value (pandas \<^verbatim>\<open>NaN\<close>) of a
  numeric column is \<open>None\<close>. The only step of \<^verbatim>\<open>main\<close> that can raise on well-typed
  frames is the integer cast of line 104; it returns a sum, \<open>Inl\<close> the exception.
  The argument parser, the file checks, the parquet writers and the pivot of step 8 (a
  reshaped copy of the subdomain statistics) are not modelled.
\<close>

subsection \<open>Values and errors\<close>

datatype error = ValueError string | OverflowError

text \<open>
  A cell of the column \<^verbatim>\<open>domainId\<close> of the subdomain table as \<^verbatim>\<open>read_csv\<close> loads it:
  empty, an integer, or text (a comma-separated list). The column's dtype follows from
  its cells.
\<close>

datatype cell = NaN | IntCell int | StrCell string

datatype dtype = Int64 | Float64 | Object

fun is_text :: "cell \<Rightarrow> bool" where
  "is_text (StrCell s) = True"
| "is_text c = False"

definition column_dtype :: "cell list \<Rightarrow> dtype" where
  "column_dtype cs =
     (if cs = [] \<or> list_ex is_text cs then Object
      else if NaN \<in> set cs then Float64
      else Int64)"

text \<open>
  A row of the question table \<^verbatim>\<open>df1\<close> from step 4 on: \<^verbatim>\<open>question_code\<close>,
  \<^verbatim>\<open>subdomain_id\<close>, \<^verbatim>\<open>domainId\<close>. The type of the third column changes from step to
  step, as its dtype does in the source. The other columns of the mapping file ride along
  unread and are dropped by the column selection of line 111.
\<close>

type_synonym 'd taxonomy_row = "string \<times> int option \<times> 'd"

subsection \<open>pandas \<^verbatim>\<open>merge(how='left')\<close>\<close>

text \<open>
  Every left row, in order, once per matching right row, in the right table's order; a
  left row without a match appears once, the right columns missing.
\<close>

definition merge_left ::
  "('a \<Rightarrow> 'b \<Rightarrow> bool) \<Rightarrow> ('a \<Rightarrow> 'b option \<Rightarrow> 'c) \<Rightarrow> 'a list \<Rightarrow> 'b list \<Rightarrow> 'c list" where
  "merge_left same_key mk left right =
     concat (map (\<lambda>l. case filter (same_key l) right of
                          [] \<Rightarrow> [mk l None]
                        | m # ms \<Rightarrow> map (\<lambda>r. mk l (Some r)) (m # ms)) left)"

subsection \<open>Step 2: merge mapping to get \<^verbatim>\<open>subdomain_id\<close>\<close>

definition merge_subdomain_id ::
  "string list \<Rightarrow> (string \<times> int option) list \<Rightarrow> (string \<times> int option) list" where
  "merge_subdomain_id df1 df2 =
     merge_left (\<lambda>q (c, s). q = c)
                (\<lambda>q m. (q, case m of None \<Rightarrow> None | Some (c, s) \<Rightarrow> s)) df1 df2"

subsection \<open>Step 3: manual mapping fallback\<close>

definition manual_map_items :: "(string \<times> int) list" where
  "manual_map_items =
     [(''ZT117'', 7), (''ZT142'', 6), (''ZT121'', 14), (''ZT123'', 14), (''ZT144'', 12),
      (''ZT118'', 24), (''ZT125'', 18), (''ZT126'', 18), (''ZT127'', 19), (''ZT134'', 1),
      (''ZT135'', 1), (''ZT136'', 1), (''ZT143'', 13), (''ZT119'', 24), (''ZT129'', 15),
      (''ZT124'', 18), (''ZT128'', 16), (''ZT122'', 14), (''ZT131'', 11), (''ZT145'', 24),
      (''ZT132'', 19), (''ZT74'', 19), (''ZT133'', 1), (''ZT130'', 15), (''ZT146'', 20),
      (''ZT120'', 13), (''ZT137'', 3), (''ZT138'', 3), (''ZT139'', 3), (''ZT140'', 3),
      (''ZT141'', 3)]"

definition manual_map :: "string \<Rightarrow> int option" where
  "manual_map = map_of manual_map_items"

text \<open>\<^verbatim>\<open>s.fillna(t)\<close>: a missing value of \<open>s\<close> takes the value of \<open>t\<close> at the same index.\<close>

fun fillna :: "'a option \<Rightarrow> 'a option \<Rightarrow> 'a option" where
  "fillna None t = t"
| "fillna (Some v) t = Some v"

definition manual_fallback :: "(string \<times> int option) list \<Rightarrow> (string \<times> int option) list" where
  "manual_fallback df = map (\<lambda>(q, s). (q, fillna s (manual_map q))) df"

subsection \<open>Step 4: merge to get \<^verbatim>\<open>domainId\<close>\<close>

text \<open>
  The key \<^verbatim>\<open>id\<close> of the subdomain table is optional as well: pandas matches a missing
  left key with a missing right key.
\<close>

definition merge_domainId ::
  "(string \<times> int option) list \<Rightarrow> (int option \<times> cell) list \<Rightarrow> cell taxonomy_row list" where
  "merge_domainId df df3 =
     merge_left (\<lambda>(q, s) (i, d). s = i)
                (\<lambda>(q, s) m. (q, s, case m of None \<Rightarrow> NaN | Some (i, d) \<Rightarrow> d)) df df3"

text \<open>
  The merged column keeps the dtype of the subdomain table's column, except that an
  integer column into which the merge put a missing value becomes a float column.
\<close>

definition merged_dtype :: "cell list \<Rightarrow> cell list \<Rightarrow> dtype" where
  "merged_dtype right_cells merged_cells =
     (if column_dtype right_cells = Int64 \<and> NaN \<in> set merged_cells then Float64
      else column_dtype right_cells)"

subsection \<open>Step 5: explode multi-domain ids\<close>

definition digit_char :: "nat \<Rightarrow> char" where
  "digit_char d = char_of (48 + d)"

function str_nat :: "nat \<Rightarrow> string" where
  "str_nat n = (if n < 10 then [digit_char n] else str_nat (n div 10) @ [digit_char (n mod 10)])"
  by pat_completeness auto
termination
  by (relation "measure id") auto

declare str_nat.simps [simp del]

definition str_int :: "int \<Rightarrow> string" where
  "str_int i = (if i < 0 then CHR ''-'' # str_nat (nat (- i)) else str_nat (nat i))"

text \<open>
  \<^verbatim>\<open>astype(str)\<close>: text stays, a missing value becomes the text \<^verbatim>\<open>nan\<close>, an integer of an
  integer column is printed in decimal and an integer of a float column with a trailing
  \<^verbatim>\<open>.0\<close> (floats of sixteen digits and more print with an exponent, which \<^verbatim>\<open>int()\<close>
  rejects just as it rejects \<^verbatim>\<open>.0\<close>).
\<close>

fun astype_str :: "dtype \<Rightarrow> cell \<Rightarrow> string" where
  "astype_str t NaN = ''nan''"
| "astype_str t (StrCell s) = s"
| "astype_str t (IntCell n) = (if t = Float64 then str_int n @ ''.0'' else str_int n)"

text \<open>\<^verbatim>\<open>str.split(',')\<close> of Python: the empty text splits into one empty token.\<close>

fun str_split :: "char \<Rightarrow> string \<Rightarrow> string list" where
  "str_split sep [] = [[]]"
| "str_split sep (c # cs) =
     (if c = sep then [] # str_split sep cs
      else (case str_split sep cs of
              [] \<Rightarrow> [[c]]
            | t # ts \<Rightarrow> (c # t) # ts))"

text \<open>
  \<^verbatim>\<open>explode\<close>: one row per element of the list, the other columns repeated; an empty list
  gives one row with a missing value.
\<close>

fun explode1 :: "string list taxonomy_row \<Rightarrow> string option taxonomy_row list" where
  "explode1 (q, s, []) = [(q, s, None)]"
| "explode1 (q, s, t # ts) = map (\<lambda>x. (q, s, Some x)) (t # ts)"

definition explode :: "string list taxonomy_row list \<Rightarrow> string option taxonomy_row list" where
  "explode df = concat (map explode1 df)"

text \<open>
  Python's \<^verbatim>\<open>int(text)\<close> in base 10, on ASCII text: surrounding whitespace is stripped, one
  sign may lead, and the digits may be grouped by single underscores.
\<close>

definition is_space :: "char \<Rightarrow> bool" where
  "is_space c = (c \<in> set [CHR 0x09, CHR 0x0A, CHR 0x0B, CHR 0x0C, CHR 0x0D,
                          CHR 0x1C, CHR 0x1D, CHR 0x1E, CHR 0x1F, CHR 0x20])"

definition is_digit :: "char \<Rightarrow> bool" where
  "is_digit c = (c \<in> set ''0123456789'')"

definition digit_val :: "char \<Rightarrow> nat" where
  "digit_val c = of_char c - 48"

definition strip :: "string \<Rightarrow> string" where
  "strip s = rev (dropWhile is_space (rev (dropWhile is_space s)))"

fun py_digits :: "bool \<Rightarrow> nat \<Rightarrow> string \<Rightarrow> nat option" where
  "py_digits after_digit acc [] = (if after_digit then Some acc else None)"
| "py_digits after_digit acc (c # cs) =
     (if is_digit c then py_digits True (10 * acc + digit_val c) cs
      else if c = CHR ''_'' \<and> after_digit then py_digits False acc cs
      else None)"

definition py_int :: "string \<Rightarrow> int option" where
  "py_int s =
     (case strip s of
        [] \<Rightarrow> None
      | c # cs \<Rightarrow>
          if c = CHR ''-'' then map_option (\<lambda>n. - int n) (py_digits False 0 cs)
          else if c = CHR ''+'' then map_option int (py_digits False 0 cs)
          else map_option int (py_digits False 0 (c # cs)))"

text \<open>
  \<^verbatim>\<open>astype(int)\<close> on one value of the exploded column: \<^verbatim>\<open>int()\<close> of the text, which must
  then fit the 64-bit integer column. \<open>ValueError\<close> carries the rejected value.
\<close>

definition fits_int64 :: "int \<Rightarrow> bool" where
  "fits_int64 n = (- (2 ^ 63) \<le> n \<and> n < 2 ^ 63)"

definition int_of_value :: "string option \<Rightarrow> error + int" where
  "int_of_value v =
     (case v of
        None \<Rightarrow> Inl (ValueError ''nan'')
      | Some t \<Rightarrow>
          (case py_int t of
             None \<Rightarrow> Inl (ValueError t)
           | Some n \<Rightarrow> if fits_int64 n then Inr n else Inl OverflowError))"

text \<open>The cast of the whole column raises at the first value it cannot convert.\<close>

fun astype_int :: "string option taxonomy_row list \<Rightarrow> error + int taxonomy_row list" where
  "astype_int [] = Inr []"
| "astype_int ((q, s, v) # rows) =
     (case int_of_value v of
        Inl e \<Rightarrow> Inl e
      | Inr n \<Rightarrow>
          (case astype_int rows of
             Inl e \<Rightarrow> Inl e
           | Inr rows' \<Rightarrow> Inr ((q, s, n) # rows')))"

definition split_domainId ::
  "(int option \<times> cell) list \<Rightarrow> cell taxonomy_row list \<Rightarrow> string list taxonomy_row list" where
  "split_domainId df3 df =
     (let t = merged_dtype (map snd df3) (map (\<lambda>(q, s, d). d) df)
      in map (\<lambda>(q, s, d). (q, s, str_split CHR '','' (astype_str t d))) df)"

definition explode_domainId ::
  "(int option \<times> cell) list \<Rightarrow> cell taxonomy_row list \<Rightarrow> error + int taxonomy_row list" where
  "explode_domainId df3 df = astype_int (explode (split_domainId df3 df))"

subsection \<open>Steps 2 to 5: the taxonomy table\<close>

definition taxonomy_resolver ::
  "string list \<Rightarrow> (string \<times> int option) list \<Rightarrow> (int option \<times> cell) list
     \<Rightarrow> error + int taxonomy_row list" where
  "taxonomy_resolver df1 df2 df3 =
     explode_domainId df3 (merge_domainId (manual_fallback (merge_subdomain_id df1 df2)) df3)"

subsection \<open>Step 6: melt responses to long format and annotate\<close>

text \<open>
  The responses table \<^verbatim>\<open>df4\<close> is wide: the identifying columns \<^verbatim>\<open>employee_id\<close> and
  \<^verbatim>\<open>team\<close>, and one column of scores per question code. A row gives a score, or a
  missing value, for every question column.
\<close>

record id_vars =
  employee_id :: int
  team :: string

record wide_row = id_vars +
  answers :: "string \<Rightarrow> int option"

record response = id_vars +
  question_code :: string
  score :: "int option"

record annotated = response +
  subdomain_id :: "int option"
  domainId :: "int option"

text \<open>\<^verbatim>\<open>melt\<close>: the value columns one after the other, each over all rows in order.\<close>

definition melt :: "string list \<times> wide_row list \<Rightarrow> response list" where
  "melt df4 =
     (case df4 of (value_vars, rows) \<Rightarrow>
        concat (map (\<lambda>c. map (\<lambda>r. \<lparr>employee_id = employee_id r, team = team r,
                                     question_code = c, score = answers r c\<rparr>) rows)
                    value_vars))"

definition annotate :: "response list \<Rightarrow> int taxonomy_row list \<Rightarrow> annotated list" where
  "annotate df tax =
     merge_left (\<lambda>r (q, s, d). question_code r = q)
       (\<lambda>r m. case m of
                 None \<Rightarrow> response.extend r (annotated.fields None None)
               | Some (q, s, d) \<Rightarrow> response.extend r (annotated.fields s (Some d)))
       df tax"

subsection \<open>Step 6a: recode reversed items\<close>

definition reverse_items :: "string list" where
  "reverse_items =
     [''ZT101'', ''ZT102'', ''ZT103'', ''ZT13'', ''ZT14'', ''ZT15'', ''ZT16'', ''ZT18'', ''ZT19'',
      ''ZT20'', ''ZT21'', ''ZT22'', ''ZT23'', ''ZT24'', ''ZT25'', ''ZT26'', ''ZT28'', ''ZT29'',
      ''ZT30'', ''ZT33'', ''ZT34'', ''ZT4'', ''ZT43'', ''ZT60'', ''ZT70'', ''ZT74'', ''ZT78'',
      ''ZT79'', ''ZT80'', ''ZT81'', ''ZT85'', ''ZT89'']"

definition reverse_score :: "int option \<Rightarrow> int option" where
  "reverse_score s = map_option (\<lambda>x. 11 - x) s"

text \<open>
  The mask is computed over the whole table first, then the masked rows are assigned
  \<^verbatim>\<open>11 - score\<close>. The definition serves every table that has the columns
  \<^verbatim>\<open>question_code\<close> and \<^verbatim>\<open>score\<close>.
\<close>

definition recode_reversed :: "'a response_scheme list \<Rightarrow> 'a response_scheme list" where
  "recode_reversed df =
     (let mask = map (\<lambda>r. question_code r \<in> set reverse_items) df
      in map (\<lambda>(m, r). if m then r\<lparr>score := reverse_score (score r)\<rparr> else r) (zip mask df))"

subsection \<open>Statistics of one group\<close>

text \<open>
  Scores are integers; the statistics are computed in exact arithmetic (rationals, and
  the real square root), not in the 64-bit floats of pandas. Every statistic skips
  missing scores, and is itself missing (\<open>None\<close>) where pandas returns \<^verbatim>\<open>NaN\<close>.
\<close>

fun dropna :: "'a option list \<Rightarrow> 'a list" where
  "dropna [] = []"
| "dropna (None # xs) = dropna xs"
| "dropna (Some x # xs) = x # dropna xs"

text \<open>\<^verbatim>\<open>Series.quantile(q)\<close>, interpolation \<^verbatim>\<open>linear\<close>: the value at rank \<open>q * (n - 1)\<close>.\<close>

definition quantile :: "rat \<Rightarrow> int option list \<Rightarrow> rat option" where
  "quantile q x =
     (let xs = sort (dropna x); n = length xs
      in if n = 0 then None
         else
           (let pos = q * of_nat (n - 1);
                lo = nat \<lfloor>pos\<rfloor>;
                hi = min (lo + 1) (n - 1);
                frac = pos - of_nat lo
            in Some (of_int (xs ! lo) + (of_int (xs ! hi) - of_int (xs ! lo)) * frac)))"

fun minus_opt :: "rat option \<Rightarrow> rat option \<Rightarrow> rat option" where
  "minus_opt (Some a) (Some b) = Some (a - b)"
| "minus_opt a b = None"

definition iqr :: "int option list \<Rightarrow> rat option" where
  "iqr x = minus_opt (quantile (3 / 4) x) (quantile (1 / 4) x)"

text \<open>The aggregation \<^verbatim>\<open>'median'\<close>: the middle value, or the mean of the two middle values.\<close>

definition median :: "int option list \<Rightarrow> rat option" where
  "median x =
     (let xs = sort (dropna x); n = length xs
      in if n = 0 then None
         else if odd n then Some (of_int (xs ! (n div 2)))
         else Some ((of_int (xs ! (n div 2 - 1)) + of_int (xs ! (n div 2))) / 2))"

definition mean :: "int option list \<Rightarrow> rat option" where
  "mean x =
     (let xs = dropna x
      in if xs = [] then None else Some (of_int (sum_list xs) / of_nat (length xs)))"

text \<open>The sample variance, denominator \<open>n - 1\<close>; \<^verbatim>\<open>'std'\<close> is its square root.\<close>

definition var :: "int option list \<Rightarrow> rat option" where
  "var x =
     (let xs = dropna x; n = length xs
      in if n \<le> 1 then None
         else
           (let m = of_int (sum_list xs) / of_nat n
            in Some (sum_list (map (\<lambda>v. (of_int v - m) ^ 2) xs) / of_nat (n - 1))))"

text \<open>
  The standard deviation is kept exact, as the square root of a rational: \<open>Sqrt v\<close>
  stands for the real number \<open>sqrt v\<close>.
\<close>

datatype surd = Sqrt rat

fun surd_value :: "surd \<Rightarrow> real" where
  "surd_value (Sqrt v) = sqrt (of_rat v)"

definition std :: "int option list \<Rightarrow> surd option" where
  "std x = map_option Sqrt (var x)"

record stats =
  median_score :: "rat option"
  mean_score :: "rat option"
  std_score :: "surd option"
  IQR_score :: "rat option"

text \<open>Step 7 aggregates with \<^verbatim>\<open>'median'\<close>, step 9 with \<^verbatim>\<open>x.quantile(0.5)\<close>.\<close>

definition agg_subdomain :: "int option list \<Rightarrow> stats" where
  "agg_subdomain x =
     \<lparr>median_score = median x, mean_score = mean x, std_score = std x, IQR_score = iqr x\<rparr>"

definition agg_domain :: "int option list \<Rightarrow> stats" where
  "agg_domain x =
     \<lparr>median_score = quantile (1 / 2) x, mean_score = mean x, std_score = std x,
      IQR_score = iqr x\<rparr>"

subsection \<open>Steps 7 and 9: grouped statistics\<close>

text \<open>
  \<^verbatim>\<open>groupby(keys)\<close>: a row with a missing key belongs to no group; the groups come out in
  ascending order of their keys; a group holds the scores of its rows in row order.
\<close>

definition groupby_agg ::
  "('r \<Rightarrow> 'k::linorder option) \<Rightarrow> ('r \<Rightarrow> int option) \<Rightarrow> (int option list \<Rightarrow> stats)
     \<Rightarrow> 'r list \<Rightarrow> ('k \<times> stats) list" where
  "groupby_agg key val agg df =
     map (\<lambda>k. (k, agg (map val (filter (\<lambda>r. key r = Some k) df))))
         (sort (remdups (dropna (map key df))))"

fun key_subdomain :: "annotated \<Rightarrow> (string \<times> int \<times> int) option" where
  "key_subdomain r =
     (case (domainId r, subdomain_id r) of
        (Some d, Some s) \<Rightarrow> Some (team r, d, s)
      | _ \<Rightarrow> None)"

fun key_domain :: "annotated \<Rightarrow> (string \<times> int) option" where
  "key_domain r = (case domainId r of Some d \<Rightarrow> Some (team r, d) | None \<Rightarrow> None)"

definition subdomain_level_stats :: "annotated list \<Rightarrow> ((string \<times> int \<times> int) \<times> stats) list" where
  "subdomain_level_stats df = groupby_agg key_subdomain score agg_subdomain df"

definition domain_level_stats :: "annotated list \<Rightarrow> ((string \<times> int) \<times> stats) list" where
  "domain_level_stats df = groupby_agg key_domain score agg_domain df"

subsection \<open>The pipeline\<close>

record outputs =
  df_long :: "annotated list"
  domain_stats :: "((string \<times> int) \<times> stats) list"
  stats_df :: "((string \<times> int \<times> int) \<times> stats) list"

definition main ::
  "string list \<Rightarrow> (string \<times> int option) list \<Rightarrow> (int option \<times> cell) list
     \<Rightarrow> string list \<times> wide_row list \<Rightarrow> error + outputs" where
  "main df1 df2 df3 df4 =
     (case taxonomy_resolver df1 df2 df3 of
        Inl e \<Rightarrow> Inl e
      | Inr tax \<Rightarrow>
          (let long = recode_reversed (annotate (melt df4) tax)
           in Inr \<lparr>df_long = long,
                   domain_stats = domain_level_stats long,
                   stats_df = subdomain_level_stats long\<rparr>))"

subsection \<open>Two respondents, for the examples\<close>

definition respondent_1 :: wide_row where
  "respondent_1 =
     \<lparr>employee_id = 1, team = ''A'',
      answers = (\<lambda>c. if c = ''ZT4'' then Some 3 else if c = ''ZT9'' then Some 8 else None)\<rparr>"

definition respondent_2 :: wide_row where
  "respondent_2 =
     \<lparr>employee_id = 2, team = ''B'',
      answers = (\<lambda>c. if c = ''ZT4'' then Some 10 else if c = ''ZT9'' then Some 2 else None)\<rparr>"

subsection \<open>Auxiliary notions for the statements\<close>

text \<open>The question table after step 4, before the domain ids are split.\<close>

definition resolved_table ::
  "string list \<Rightarrow> (string \<times> int option) list \<Rightarrow> (int option \<times> cell) list
     \<Rightarrow> cell taxonomy_row list" where
  "resolved_table df1 df2 df3 =
     merge_domainId (manual_fallback (merge_subdomain_id df1 df2)) df3"





text \<open>What the masked assignment of step 6a does to one row.\<close>

definition recode_row :: "'a response_scheme \<Rightarrow> 'a response_scheme" where
  "recode_row r =
     (if question_code r \<in> set reverse_items then r\<lparr>score := reverse_score (score r)\<rparr>
      else r)"

section \<open>Statistics of a group\<close>














text \<open>
  C6. On the scores 2, 4, 4, 4, 5, 5, 7, 9 both aggregations give mean 5, median 4.5,
  the standard deviation \<open>sqrt (32 / 7)\<close>, which lies within 0.0005 of 2.138, and the
  interquartile range 1.5, the difference of the quartiles 5.5 and 4 that the linear
  interpolation gives.
\<close>

theorem known_dataset_statistics:
  "agg_subdomain (map Some [2, 4, 4, 4, 5, 5, 7, 9]) =
     \<lparr>median_score = Some (9 / 2), mean_score = Some 5, std_score = Some (Sqrt (32 / 7)),
      IQR_score = Some (3 / 2)\<rparr>
   \<and> agg_domain (map Some [2, 4, 4, 4, 5, 5, 7, 9]) =
     \<lparr>median_score = Some (9 / 2), mean_score = Some 5, std_score = Some (Sqrt (32 / 7)),
      IQR_score = Some (3 / 2)\<rparr>
   \<and> quantile (3 / 4) (map Some [2, 4, 4, 4, 5, 5, 7, 9]) = Some (11 / 2)
   \<and> quantile (1 / 4) (map Some [2, 4, 4, 4, 5, 5, 7, 9]) = Some 4
   \<and> \<bar>surd_value (Sqrt (32 / 7)) - 2.138\<bar> < 0.0005"
proof -
  have sub: "agg_subdomain (map Some [2, 4, 4, 4, 5, 5, 7, 9]) =
     \<lparr>median_score = Some (9 / 2), mean_score = Some 5, std_score = Some (Sqrt (32 / 7)),
      IQR_score = Some (3 / 2)\<rparr>"
    by code_simp
  have dom: "agg_domain (map Some [2, 4, 4, 4, 5, 5, 7, 9]) =
     \<lparr>median_score = Some (9 / 2), mean_score = Some 5, std_score = Some (Sqrt (32 / 7)),
      IQR_score = Some (3 / 2)\<rparr>"
    by code_simp
  have q3: "quantile (3 / 4) (map Some [2, 4, 4, 4, 5, 5, 7, 9]) = Some (11 / 2)"
    by code_simp
  have q1: "quantile (1 / 4) (map Some [2, 4, 4, 4, 5, 5, 7, 9]) = Some 4"
    by code_simp
  have lo: "(2.1375::real) < sqrt (32 / 7)"
    by (rule real_less_rsqrt) (simp add: power2_eq_square)
  have hi: "sqrt (32 / 7) < (2.1385::real)"
    by (rule real_less_lsqrt) (simp_all add: power2_eq_square)
  have eq: "surd_value (Sqrt (32 / 7)) = sqrt (32 / 7)"
    unfolding surd_value.simps of_rat_divide of_rat_numeral_eq ..
  have "\<bar>sqrt (32 / 7) - 2.138\<bar> < (0.0005::real)"
    using lo hi by (simp add: abs_if)
  then have sd: "\<bar>surd_value (Sqrt (32 / 7)) - 2.138\<bar> < 0.0005"
    unfolding eq .
  from sub dom q3 q1 sd show ?thesis by (intro conjI)
qed

text \<open>
  C7. A group whose only score that is not missing is \<open>s\<close> has median \<open>s\<close> and mean
  \<open>s\<close>, no standard deviation, and interquartile range 0, at the subdomain level and at
  the domain level.
\<close>

theorem single_score_group:
  assumes "dropna x = [s]"
  shows "agg_subdomain x =
           \<lparr>median_score = Some (of_int s), mean_score = Some (of_int s), std_score = None,
            IQR_score = Some 0\<rparr>
         \<and> agg_domain x =
           \<lparr>median_score = Some (of_int s), mean_score = Some (of_int s), std_score = None,
            IQR_score = Some 0\<rparr>"
  using assms
  by (simp add: agg_subdomain_def agg_domain_def median_def mean_def std_def var_def iqr_def
      quantile_def)

theorem single_score_group_witness:
  "dropna [None, Some 7] = [7 :: int]
   \<and> agg_subdomain [None, Some 7] =
       \<lparr>median_score = Some 7, mean_score = Some 7, std_score = None, IQR_score = Some 0\<rparr>
   \<and> agg_domain [None, Some 7] =
       \<lparr>median_score = Some 7, mean_score = Some 7, std_score = None, IQR_score = Some 0\<rparr>"
  using single_score_group [of "[None, Some 7]" 7] by simp

text \<open>
  C9. Reversing a score twice gives the score back: \<open>11 - (11 - s) = s\<close>, for every
  score, so for the scores 1 to 10; a missing score stays missing.
\<close>

theorem reverse_score_involution: "reverse_score (reverse_score s) = s"
  by (cases s) (simp_all add: reverse_score_def)

section \<open>Row order\<close>




lemma recode_reversed_map:
  "recode_reversed df =
     map (\<lambda>r. if question_code r \<in> set reverse_items
              then r\<lparr>score := reverse_score (score r)\<rparr> else r) df"
  by (simp add: recode_reversed_def zip_map1 zip_same_conv_map)




section \<open>Reverse coding\<close>

lemma extend_score_update:
  "response.extend (r\<lparr>score := v\<rparr>) x = (response.extend r x)\<lparr>score := v\<rparr>"
  by (cases r) (simp add: response.defs id_vars.defs)

lemma question_code_extend: "question_code (response.extend r x) = question_code r"
  by (cases r) (simp add: response.defs id_vars.defs)

lemma score_extend: "score (response.extend r x) = score r"
  by (cases r) (simp add: response.defs id_vars.defs)

lemma recode_row_extend: "recode_row (response.extend r x) = response.extend (recode_row r) x"
  by (simp add: recode_row_def extend_score_update question_code_extend score_extend)

lemma question_code_recode_row: "question_code (recode_row r) = question_code r"
  by (simp add: recode_row_def)

lemma annotate_Nil: "annotate [] tax = []"
  by (simp add: annotate_def merge_left_def)

lemma annotate_Cons: "annotate (r # df) tax = annotate [r] tax @ annotate df tax"
  by (simp add: annotate_def merge_left_def)

lemma annotate_single_recode_row: "map recode_row (annotate [r] tax) = annotate [recode_row r] tax"
  by (simp add: annotate_def merge_left_def question_code_recode_row recode_row_extend
      split: list.splits prod.splits)

lemma annotate_recode_row: "map recode_row (annotate df tax) = annotate (map recode_row df) tax"
proof (induction df)
  case Nil
  show ?case by (simp add: annotate_Nil)
next
  case (Cons r df)
  have "map recode_row (annotate (r # df) tax) =
        map recode_row (annotate [r] tax) @ map recode_row (annotate df tax)"
    by (simp only: annotate_Cons [of r df] map_append)
  also have "\<dots> = annotate [recode_row r] tax @ annotate (map recode_row df) tax"
    by (simp only: annotate_single_recode_row Cons.IH)
  also have "\<dots> = annotate (map recode_row (r # df)) tax"
    by (simp only: list.map annotate_Cons [of "recode_row r" "map recode_row df"])
  finally show ?case .
qed

lemma matched_scores:
  "map (score \<circ> (\<lambda>(q, s, d). response.extend r (annotated.fields s (Some d)))) xs =
     replicate (length xs) (score r)"
  by (induction xs) (auto simp: score_extend)

lemma annotate_single_scores:
  "map score (annotate [r] tax) = replicate (length (annotate [r] tax)) (score r)"
  by (simp add: annotate_def merge_left_def score_extend matched_scores
      split: list.splits prod.splits)

lemma score_recode_row:
  "score (recode_row r) =
     (if question_code r \<in> set reverse_items then map_option (\<lambda>s. 11 - s) (score r) else score r)"
  by (simp add: recode_row_def reverse_score_def)

text \<open>
  C10. Reverse coding commutes with the taxonomy join: recoding the annotated table, as
  step 6a does, gives the table that annotating the recoded melted table gives. The rows
  that the join makes of one melted row all carry that row's score, reversed once when
  its question is a reverse item and unchanged otherwise.
\<close>

theorem recode_commutes_with_join:
  "recode_reversed (annotate df tax) = annotate (recode_reversed df) tax
   \<and> map score (recode_reversed (annotate [r] tax)) =
       replicate (length (annotate [r] tax))
         (if question_code r \<in> set reverse_items then map_option (\<lambda>s. 11 - s) (score r)
          else score r)"
proof -
  have l: "recode_reversed (annotate df tax) = map recode_row (annotate df tax)" for df :: "response list"
    unfolding recode_reversed_map recode_row_def ..
  have r: "recode_reversed df = map recode_row df"
    unfolding recode_reversed_map recode_row_def ..
  have one: "recode_reversed (annotate df tax) = annotate (recode_reversed df) tax"
    unfolding l r by (rule annotate_recode_row)
  have "map score (recode_reversed (annotate [r] tax)) = map score (annotate [recode_row r] tax)"
    unfolding l by (simp only: annotate_single_recode_row)
  also have "\<dots> = replicate (length (annotate [recode_row r] tax)) (score (recode_row r))"
    by (rule annotate_single_scores)
  also have "length (annotate [recode_row r] tax) = length (annotate [r] tax)"
    by (simp only: annotate_single_recode_row [symmetric] length_map)
  finally have two: "map score (recode_reversed (annotate [r] tax)) =
       replicate (length (annotate [r] tax)) (score (recode_row r))" .
  from one two show ?thesis unfolding score_recode_row by (rule conjI)
qed

lemma distinct_reverse_items: "length reverse_items = 32 \<and> distinct reverse_items"
  by (simp add: reverse_items_def)

text \<open>
  C2. When the taxonomy table exists, the long table that \<open>main\<close> returns is the
  annotated table with, row by row, the score \<open>11 - score\<close> where the question code is
  one of the 32 reverse items and the row unchanged elsewhere; both tables of statistics
  are computed from that recoded table.
\<close>

theorem reverse_coding_once_before_aggregation:
  assumes "taxonomy_resolver df1 df2 df3 = Inr tax"
  shows "main df1 df2 df3 df4 =
           (let long = map (\<lambda>r. if question_code r \<in> set reverse_items
                                 then r\<lparr>score := map_option (\<lambda>s. 11 - s) (score r)\<rparr> else r)
                           (annotate (melt df4) tax)
            in Inr \<lparr>df_long = long, domain_stats = domain_level_stats long,
                    stats_df = subdomain_level_stats long\<rparr>)
         \<and> length reverse_items = 32 \<and> distinct reverse_items"
  using assms distinct_reverse_items
  unfolding main_def recode_reversed_map reverse_score_def
  by (simp add: Let_def)

lemma example_taxonomy: "taxonomy_resolver [''ZT4'', ''ZT9''] [(''ZT4'', Some 1), (''ZT9'', Some 2)]
          [(Some 1, StrCell ''5,6''), (Some 2, StrCell ''5'')] =
        Inr [(''ZT4'', Some 1, 5), (''ZT4'', Some 1, 6), (''ZT9'', Some 2, 5)]"
  by code_simp

theorem reverse_coding_once_before_aggregation_witness:
  "taxonomy_resolver [''ZT4'', ''ZT9''] [(''ZT4'', Some 1), (''ZT9'', Some 2)]
          [(Some 1, StrCell ''5,6''), (Some 2, StrCell ''5'')] =
        Inr [(''ZT4'', Some 1, 5), (''ZT4'', Some 1, 6), (''ZT9'', Some 2, 5)]
   \<and> map score (df_long (projr (main [''ZT4'', ''ZT9''] [(''ZT4'', Some 1), (''ZT9'', Some 2)]
          [(Some 1, StrCell ''5,6''), (Some 2, StrCell ''5'')]
          ([''ZT4'', ''ZT9''], [respondent_1, respondent_2])))) =
       [Some 8, Some 8, Some 1, Some 1, Some 8, Some 2]"
proof -
  note h = example_taxonomy
  show ?thesis
    using h reverse_coding_once_before_aggregation [OF h, of "([''ZT4'', ''ZT9''], [respondent_1, respondent_2])"]
    by (simp add: Let_def melt_def annotate_def merge_left_def respondent_1_def respondent_2_def
        reverse_items_def response.defs id_vars.defs annotated.defs)
qed

section \<open>The manual fallback\<close>

lemma set_case_rows:
  "set (case xs of [] \<Rightarrow> [a] | m # ms \<Rightarrow> map f (m # ms)) = (if xs = [] then {a} else f ` set xs)"
  by (cases xs) simp_all

lemma set_merge_left:
  "set (merge_left k mk left right) =
     (\<Union>l \<in> set left. if filter (k l) right = [] then {mk l None}
                        else (\<lambda>r. mk l (Some r)) ` set (filter (k l) right))"
  unfolding merge_left_def set_concat set_map image_image
  by (rule SUP_cong [OF refl]) (rule set_case_rows)

lemma merge_subdomain_id_row:
  assumes "(q, s) \<in> set (merge_subdomain_id df1 df2)"
  shows "q \<in> set df1 \<and> ((q, s) \<in> set df2 \<or> (s = None \<and> q \<notin> fst ` set df2))"
  using assms unfolding merge_subdomain_id_def set_merge_left
  by (auto simp: filter_empty_conv split: if_splits)

text \<open>
  C5. Row by row, the fallback keeps a subdomain id that the automatic join found and
  fills a missing one from the manual map. A question code that the item table does not
  list has a missing id after the join, so it gets the manual map's id.
\<close>

theorem manual_fallback_fills_unresolved:
  assumes "i < length (merge_subdomain_id df1 df2)"
    and "merge_subdomain_id df1 df2 ! i = (q, s)"
  shows "manual_fallback (merge_subdomain_id df1 df2) ! i =
           (q, case s of Some a \<Rightarrow> Some a | None \<Rightarrow> manual_map q)
         \<and> (q \<notin> fst ` set df2 \<longrightarrow> s = None)
         \<and> q \<in> set df1"
proof -
  have row: "(q, s) \<in> set (merge_subdomain_id df1 df2)"
    using assms by (metis nth_mem)
  have "manual_fallback (merge_subdomain_id df1 df2) ! i = (q, fillna s (manual_map q))"
    using assms by (simp add: manual_fallback_def)
  moreover have "fillna s (manual_map q) = (case s of Some a \<Rightarrow> Some a | None \<Rightarrow> manual_map q)"
    by (cases s) simp_all
  ultimately show ?thesis
    using merge_subdomain_id_row [OF row] by (auto simp: image_iff)
qed

theorem manual_fallback_fills_unresolved_witness:
  "0 < length (merge_subdomain_id [''ZT74'', ''ZT4''] [(''ZT4'', Some 2)])
   \<and> merge_subdomain_id [''ZT74'', ''ZT4''] [(''ZT4'', Some 2)] ! 0 = (''ZT74'', None)
   \<and> manual_fallback (merge_subdomain_id [''ZT74'', ''ZT4''] [(''ZT4'', Some 2)]) ! 0 = (''ZT74'', Some 19)
   \<and> ''ZT74'' \<notin> fst ` set [(''ZT4'', Some (2::int))]"
proof -
  have a: "0 < length (merge_subdomain_id [''ZT74'', ''ZT4''] [(''ZT4'', Some 2)])"
    by (simp add: merge_subdomain_id_def merge_left_def)
  have b: "merge_subdomain_id [''ZT74'', ''ZT4''] [(''ZT4'', Some 2)] ! 0 = (''ZT74'', None)"
    by (simp add: merge_subdomain_id_def merge_left_def)
  have m: "manual_map ''ZT74'' = Some 19"
    by (simp add: manual_map_def manual_map_items_def)
  show ?thesis
    using a b manual_fallback_fills_unresolved [OF a b] m by simp
qed

section \<open>The integer cast of the domain ids\<close>

lemma resolver_eq:
  "taxonomy_resolver df1 df2 df3 =
     astype_int (explode (split_domainId df3 (resolved_table df1 df2 df3)))"
  by (simp add: taxonomy_resolver_def explode_domainId_def resolved_table_def)


lemma astype_int_Inr_values:
  "astype_int rows = Inr out \<Longrightarrow> (q, s, v) \<in> set rows \<Longrightarrow> \<exists>n. int_of_value v = Inr n"
  by (induction rows arbitrary: out) (auto split: sum.splits)

lemma astype_int_Inl:
  "astype_int rows = Inl e \<Longrightarrow> \<exists>q s v. (q, s, v) \<in> set rows \<and> int_of_value v = Inl e"
proof (induction rows)
  case Nil
  then show ?case by simp
next
  case (Cons r rows)
  obtain q s v where r: "r = (q, s, v)" by (cases r)
  show ?case
  proof (cases "int_of_value v")
    case (Inl e')
    with Cons.prems r have "e' = e" by simp
    with Inl r show ?thesis by auto
  next
    case (Inr n)
    with Cons.prems r have "astype_int rows = Inl e"
      by (simp split: sum.splits)
    from Cons.IH [OF this] r show ?thesis by auto
  qed
qed

lemma int_of_value_rejected: "py_int t = None \<Longrightarrow> int_of_value (Some t) = Inl (ValueError t)"
  by (simp add: int_of_value_def)


lemma explode1_tokens: "t \<in> set ts \<Longrightarrow> (q, s, Some t) \<in> set (explode1 (q, s, ts))"
  by (cases ts) auto

lemma explode_tokens:
  "(q, s, ts) \<in> set df \<Longrightarrow> t \<in> set ts \<Longrightarrow> (q, s, Some t) \<in> set (explode df)"
  using explode1_tokens [of t ts q s] by (force simp: explode_def)

lemma rejected_token_raises:
  assumes "(q, s, ts) \<in> set (split_domainId df3 (resolved_table df1 df2 df3))"
    and "t \<in> set ts" and "py_int t = None"
  shows "\<exists>e. taxonomy_resolver df1 df2 df3 = Inl e
           \<and> (\<exists>q' s' v. (q', s', v) \<in> set (explode (split_domainId df3 (resolved_table df1 df2 df3)))
                  \<and> int_of_value v = Inl e)"
proof (cases "taxonomy_resolver df1 df2 df3")
  case (Inl e)
  then show ?thesis
    using astype_int_Inl [of _ e] unfolding resolver_eq by blast
next
  case (Inr out)
  have "(q, s, Some t) \<in> set (explode (split_domainId df3 (resolved_table df1 df2 df3)))"
    using assms(1,2) by (rule explode_tokens)
  then obtain n where "int_of_value (Some t) = Inr n"
    using Inr astype_int_Inr_values unfolding resolver_eq by blast
  then show ?thesis
    using int_of_value_rejected [OF assms(3)] by simp
qed




lemma py_int_nan: "py_int ''nan'' = None"
  by code_simp



section \<open>A question without a subdomain\<close>

lemma unmapped_row:
  assumes "q \<in> set df1" and "q \<notin> fst ` set df2" and "manual_map q = None"
    and "None \<notin> fst ` set df3"
  shows "(q, None, NaN) \<in> set (resolved_table df1 df2 df3)"
proof -
  have "filter (\<lambda>(c, s). q = c) df2 = []"
    using assms(2) by (auto simp: filter_empty_conv image_iff)
  then have "(q, None) \<in> set (merge_subdomain_id df1 df2)"
    using assms(1) unfolding merge_subdomain_id_def set_merge_left by force
  then have row: "(q, None) \<in> set (manual_fallback (merge_subdomain_id df1 df2))"
    using assms(3) by (force simp: manual_fallback_def)
  have "filter (\<lambda>(i, d). None = i) df3 = []"
    using assms(4) by (auto simp: filter_empty_conv image_iff)
  then show ?thesis
    using row unfolding resolved_table_def merge_domainId_def set_merge_left by force
qed

lemma split_domainId_row:
  "(q, s, d) \<in> set df \<Longrightarrow>
     (q, s, str_split CHR '','' (astype_str (merged_dtype (map snd df3) (map (\<lambda>(q, s, d). d) df)) d))
       \<in> set (split_domainId df3 df)"
  by (force simp: split_domainId_def Let_def)

lemma split_nan: "str_split CHR '','' ''nan'' = [''nan'']"
  by simp

text \<open>
  C3. A question code of the mapping file that the item table does not list and the
  manual map does not know makes the resolver, and with it the pipeline, raise at the
  integer cast: its missing domain id has become the text \<^verbatim>\<open>nan\<close>. (The subdomain table
  is taken to have no row with a missing id, which such a question would match.)
\<close>

theorem unmapped_question_raises:
  assumes "q \<in> set df1" and "q \<notin> fst ` set df2" and "manual_map q = None"
    and "None \<notin> fst ` set df3"
  shows "\<exists>e. taxonomy_resolver df1 df2 df3 = Inl e \<and> main df1 df2 df3 df4 = Inl e"
proof -
  have "(q, None, [''nan'']) \<in> set (split_domainId df3 (resolved_table df1 df2 df3))"
    using split_domainId_row [OF unmapped_row [OF assms], of df3] by (simp add: split_nan)
  from rejected_token_raises [OF this _ py_int_nan]
  obtain e where "taxonomy_resolver df1 df2 df3 = Inl e" by auto
  then show ?thesis by (simp add: main_def)
qed

theorem unmapped_question_raises_witness:
  "''ZT999'' \<in> set [''ZT4'', ''ZT999''] \<and> ''ZT999'' \<notin> fst ` set [(''ZT4'', Some (1::int))]
   \<and> manual_map ''ZT999'' = None \<and> None \<notin> fst ` set [(Some (1::int), StrCell ''5,6'')]
   \<and> main [''ZT4'', ''ZT999''] [(''ZT4'', Some 1)] [(Some 1, StrCell ''5,6'')]
        ([''ZT4'', ''ZT999''], [respondent_1, respondent_2]) = Inl (ValueError ''nan'')"
proof -
  have a: "''ZT999'' \<in> set [''ZT4'', ''ZT999'']" by simp
  have b: "''ZT999'' \<notin> fst ` set [(''ZT4'', Some (1::int))]" by simp
  have c: "manual_map ''ZT999'' = None" by code_simp
  have d: "None \<notin> fst ` set [(Some (1::int), StrCell ''5,6'')]" by simp
  have r: "taxonomy_resolver [''ZT4'', ''ZT999''] [(''ZT4'', Some 1)] [(Some 1, StrCell ''5,6'')] =
      Inl (ValueError ''nan'')"
    by code_simp
  from unmapped_question_raises [OF a b c d, of "([''ZT4'', ''ZT999''], [respondent_1, respondent_2])"] r
  have "main [''ZT4'', ''ZT999''] [(''ZT4'', Some 1)] [(Some 1, StrCell ''5,6'')]
        ([''ZT4'', ''ZT999''], [respondent_1, respondent_2]) = Inl (ValueError ''nan'')"
    by auto
  with a b c d show ?thesis by (intro conjI)
qed

section \<open>Rows of the taxonomy table\<close>













end
